theory Spec2Isabelle
  imports Main "HOL-Library.Sublist"
begin

section \<open>Text, regular expressions and replacement\<close>

text \<open>
  The program is \<^verbatim>\<open>src/js/interpreter.js\<close>. Its text values are modelled as
  \<^typ>\<open>string\<close>: a list of code units below 256. A JSON field that holds text is a
  \<^typ>\<open>string option\<close>, \<open>None\<close> for a field that is absent; the empty text and the
  absent field are the two falsy values of such a field.
\<close>

datatype error = URIError | ReferenceError | TypeError | OutsideLatin1

type_synonym captures = \<open>string option list\<close>

text \<open>
  A regular expression of the source is modelled by its match attempt at one position:
  \<open>m pre suf\<close> tries the input \<open>pre @ suf\<close> at position \<open>length pre\<close> and gives the
  length of the match and the captured groups. Every expression of the program matches
  at least one code unit.
\<close>

type_synonym regexp = \<open>string \<Rightarrow> string \<Rightarrow> (nat \<times> captures) option\<close>

definition truthy :: \<open>string option \<Rightarrow> bool\<close> where
  \<open>truthy v = (case v of None \<Rightarrow> False | Some s \<Rightarrow> s \<noteq> [])\<close>

text \<open>\<^verbatim>\<open>a || b\<close> where \<open>b\<close> is a text.\<close>

definition lor :: \<open>string option \<Rightarrow> string \<Rightarrow> string\<close> where
  \<open>lor a b = (case a of None \<Rightarrow> b | Some s \<Rightarrow> if s \<noteq> [] then s else b)\<close>

text \<open>The code unit of a character, and the character of a code unit below 256.\<close>

definition code :: \<open>char \<Rightarrow> nat\<close> where
  \<open>code c = of_char c\<close>

definition is_digit :: \<open>char \<Rightarrow> bool\<close> where
  \<open>is_digit c = (code CHR ''0'' \<le> code c \<and> code c \<le> code CHR ''9'')\<close>

definition digit_val :: \<open>char \<Rightarrow> nat\<close> where
  \<open>digit_val c = code c - code CHR ''0''\<close>

definition is_upper :: \<open>char \<Rightarrow> bool\<close> where
  \<open>is_upper c = (code CHR ''A'' \<le> code c \<and> code c \<le> code CHR ''Z'')\<close>

definition is_lower :: \<open>char \<Rightarrow> bool\<close> where
  \<open>is_lower c = (code CHR ''a'' \<le> code c \<and> code c \<le> code CHR ''z'')\<close>


text \<open>The class \<^verbatim>\<open>\s\<close> on code units below 256: tab, line feed, vertical tab, form feed,
  carriage return, space and the no-break space.\<close>

definition is_space :: \<open>char \<Rightarrow> bool\<close> where
  \<open>is_space c = (c \<in> set [CHR 0x09, CHR 0x0A, CHR 0x0B, CHR 0x0C, CHR 0x0D, CHR 0x20, CHR 0xA0])\<close>

text \<open>
  The replacement text of \<^verbatim>\<open>String.prototype.replace\<close> when the second argument is a
  string (the abstract operation GetSubstitution of the language): \<^verbatim>\<open>$$\<close> is a dollar
  sign, \<^verbatim>\<open>$&\<close> the match, \<^verbatim>\<open>$`\<close> the input before the match, \<^verbatim>\<open>$'\<close> the input after it,
  \<^verbatim>\<open>$n\<close> and \<^verbatim>\<open>$nn\<close> a captured group when there is one with that number; no expression
  of the program has named groups, so \<^verbatim>\<open>$<\<close> stands for itself.
\<close>

definition capture :: \<open>captures \<Rightarrow> nat \<Rightarrow> string\<close> where
  \<open>capture caps i = (case caps ! (i - 1) of None \<Rightarrow> [] | Some s \<Rightarrow> s)\<close>

fun GetSubstitution :: \<open>string \<Rightarrow> string \<Rightarrow> nat \<Rightarrow> captures \<Rightarrow> string \<Rightarrow> string\<close> where
  \<open>GetSubstitution matched str position caps [] = []\<close>
| \<open>GetSubstitution matched str position caps [c] = [c]\<close>
| \<open>GetSubstitution matched str position caps (c # d # t) =
     (if c \<noteq> CHR ''$'' then c # GetSubstitution matched str position caps (d # t)
      else if d = CHR ''$'' then CHR ''$'' # GetSubstitution matched str position caps t
      else if d = CHR 0x60 then take position str @ GetSubstitution matched str position caps t
      else if d = CHR ''&'' then matched @ GetSubstitution matched str position caps t
      else if d = CHR 0x27 then
        drop (position + length matched) str @ GetSubstitution matched str position caps t
      else if is_digit d then
        (case t of
           [] \<Rightarrow>
             (if 1 \<le> digit_val d \<and> digit_val d \<le> length caps then capture caps (digit_val d)
              else [c, d])
         | e # t' \<Rightarrow>
             (if is_digit e \<and> 10 * digit_val d + digit_val e \<le> length caps then
                (if 1 \<le> 10 * digit_val d + digit_val e
                 then capture caps (10 * digit_val d + digit_val e)
                 else [c, d, e])
                @ GetSubstitution matched str position caps t'
              else
                (if 1 \<le> digit_val d \<and> digit_val d \<le> length caps then capture caps (digit_val d)
                 else [c, d])
                @ GetSubstitution matched str position caps t))
      else c # GetSubstitution matched str position caps (d # t))\<close>

text \<open>\<^verbatim>\<open>str.replace(re, x)\<close> for an expression with the flag \<^verbatim>\<open>g\<close>: the matches are found
  from left to right, each search starting where the previous match ended. The argument
  \<open>sub\<close> gives the replacement from the match, the input, the position and the groups.\<close>

function replace_g ::
  \<open>regexp \<Rightarrow> (string \<Rightarrow> string \<Rightarrow> nat \<Rightarrow> captures \<Rightarrow> string) \<Rightarrow> string \<Rightarrow> string \<Rightarrow> string\<close> where
  \<open>replace_g m sub pre suf =
     (case suf of
        [] \<Rightarrow> []
      | c # cs \<Rightarrow>
          (case m pre suf of
             None \<Rightarrow> c # replace_g m sub (pre @ [c]) cs
           | Some (n, caps) \<Rightarrow>
               if 0 < n then
                 sub (take n suf) (pre @ suf) (length pre) caps
                 @ replace_g m sub (pre @ take n suf) (drop n suf)
               else c # replace_g m sub (pre @ [c]) cs))\<close>
  by pat_completeness auto
termination
  by (relation \<open>measure (\<lambda>(m, sub, pre, suf). length suf)\<close>) auto

definition replaceAll :: \<open>regexp \<Rightarrow> string \<Rightarrow> string \<Rightarrow> string\<close> where
  \<open>replaceAll m template str =
     replace_g m (\<lambda>matched s position caps. GetSubstitution matched s position caps template) [] str\<close>

definition replaceAllFn :: \<open>regexp \<Rightarrow> (string \<Rightarrow> captures \<Rightarrow> string) \<Rightarrow> string \<Rightarrow> string\<close> where
  \<open>replaceAllFn m f str = replace_g m (\<lambda>matched s position caps. f matched caps) [] str\<close>

text \<open>\<^verbatim>\<open>str.replace(re, x)\<close> for an expression without the flag \<^verbatim>\<open>g\<close>: the leftmost match
  only.\<close>

fun replace_1 :: \<open>regexp \<Rightarrow> string \<Rightarrow> string \<Rightarrow> string \<Rightarrow> string\<close> where
  \<open>replace_1 m template pre suf =
     (case m pre suf of
        Some (n, caps) \<Rightarrow>
          GetSubstitution (take n suf) (pre @ suf) (length pre) caps template @ drop n suf
      | None \<Rightarrow> (case suf of [] \<Rightarrow> [] | c # cs \<Rightarrow> c # replace_1 m template (pre @ [c]) cs))\<close>

definition replaceFirst :: \<open>regexp \<Rightarrow> string \<Rightarrow> string \<Rightarrow> string\<close> where
  \<open>replaceFirst m template str = replace_1 m template [] str\<close>

text \<open>\<^verbatim>\<open>re.test(str)\<close> and \<^verbatim>\<open>str.match(re)\<close> without the flag \<^verbatim>\<open>g\<close>: the leftmost match, with
  its groups.\<close>

fun search :: \<open>regexp \<Rightarrow> string \<Rightarrow> string \<Rightarrow> (nat \<times> captures) option\<close> where
  \<open>search m pre suf =
     (case m pre suf of
        Some r \<Rightarrow> Some r
      | None \<Rightarrow> (case suf of [] \<Rightarrow> None | c # cs \<Rightarrow> search m (pre @ [c]) cs))\<close>

definition test :: \<open>regexp \<Rightarrow> string \<Rightarrow> bool\<close> where
  \<open>test m str = (search m [] str \<noteq> None)\<close>

text \<open>A pattern without operators, such as \<^verbatim>\<open>/\{title\}/\<close>.\<close>

definition literal :: \<open>string \<Rightarrow> regexp\<close> where
  \<open>literal pat pre suf = (if prefix pat suf then Some (length pat, []) else None)\<close>

section \<open>HTML escaping and rich text\<close>

text \<open>
  \<^verbatim>\<open>function escapeHtml(s) { return String(s).replace(/[&<>"']/g,
     c => ({ "&":"&amp;","<":"&lt;","&gt;":"&gt;",'"':"&quot;","'":"&#39;" }[c])); }\<close>
  The object literal is the table below, with the keys as the source has them. A key
  that the table lacks reads as \<^verbatim>\<open>undefined\<close>, which \<^verbatim>\<open>replace\<close> turns into the text
  \<^verbatim>\<open>undefined\<close>.
\<close>

definition entities :: \<open>(string \<times> string) list\<close> where
  \<open>entities =
     [(''&'', ''&amp;''), (''<'', ''&lt;''), (''&gt;'', ''&gt;''), (''"'', ''&quot;''),
      ([CHR 0x27], ''&#39;'')]\<close>

definition special :: regexp where
  \<open>special pre suf =
     (case suf of
        [] \<Rightarrow> None
      | c # cs \<Rightarrow> if c \<in> set (''&<>"'' @ [CHR 0x27]) then Some (1, []) else None)\<close>

definition escapeHtml :: \<open>string \<Rightarrow> string\<close> where
  \<open>escapeHtml s =
     replaceAllFn special
       (\<lambda>c caps. case map_of entities c of None \<Rightarrow> ''undefined'' | Some e \<Rightarrow> e) s\<close>

text \<open>\<^verbatim>\<open>/(https?:\/\/[^\s)]+)/g\<close>\<close>

definition url_char :: \<open>char \<Rightarrow> bool\<close> where
  \<open>url_char c = (\<not> is_space c \<and> c \<noteq> CHR '')'')\<close>

definition url_re :: regexp where
  \<open>url_re pre suf =
     (let k = (if prefix ''https://'' suf then Some 8
               else if prefix ''http://'' suf then Some 7 else None)
      in case k of
           None \<Rightarrow> None
         | Some k \<Rightarrow>
             let n = length (takeWhile url_char (drop k suf))
             in if 1 \<le> n then Some (k + n, [Some (take (k + n) suf)]) else None)\<close>

text \<open>\<^verbatim>\<open>/\*\*([^*]+)\*\*/g\<close> and \<^verbatim>\<open>/\*([^*]+)\*/g\<close>: the group is the longest run without an
  asterisk, and the closing marker has to follow it.\<close>

definition starred :: \<open>string \<Rightarrow> regexp\<close> where
  \<open>starred mark pre suf =
     (if prefix mark suf then
        let body = takeWhile (\<lambda>c. c \<noteq> CHR ''*'') (drop (length mark) suf)
        in if body \<noteq> [] \<and> prefix mark (drop (length mark + length body) suf)
           then Some (length mark + length body + length mark, [Some body])
           else None
      else None)\<close>

definition richText :: \<open>string \<Rightarrow> string\<close> where
  \<open>richText s =
     (let esc = escapeHtml s;
          linked = replaceAll url_re ''<a href="$1" class="btn">$1</a>'' esc
      in replaceAll (starred ''*'') ''<em>$1</em>''
           (replaceAll (starred ''**'') ''<strong>$1</strong>'' linked))\<close>

section \<open>Page documents, routes and the environment\<close>

text \<open>
  The records follow the JSON schema the program reads. An entry of an \<^verbatim>\<open>items\<close> array is
  an object with the fields of \<open>item\<close>, or a text (the design brief lists texts); reading
  a field of a text gives \<^verbatim>\<open>undefined\<close>.
\<close>

record item =
  it_src :: \<open>string option\<close>
  it_label :: \<open>string option\<close>
  it_language :: \<open>string option\<close>
  it_alt :: \<open>string option\<close>
  it_description :: \<open>string option\<close>
  it_code :: \<open>string option\<close>

datatype entry = Text string | Obj item

record element =
  el_type :: \<open>string option\<close>
  el_title :: \<open>string option\<close>
  el_label :: \<open>string option\<close>
  el_content :: \<open>string option\<close>
  el_text :: \<open>string option\<close>
  el_src :: \<open>string option\<close>
  el_items :: \<open>entry list option\<close>

record page =
  page_title :: \<open>string option\<close>
  page_name :: \<open>string option\<close>
  page_date :: \<open>string option\<close>
  page_type :: \<open>string option\<close>
  page_brief :: \<open>string list option\<close>
  page_elements :: \<open>element list option\<close>

text \<open>The route \<^verbatim>\<open>{ cls, id }\<close>; \<^verbatim>\<open>null\<close> is \<open>None\<close>.\<close>

record route =
  ctx_cls :: \<open>string option\<close>
  ctx_id :: \<open>string option\<close>

text \<open>
  What the program reads from its surroundings: the configuration globals
  \<^verbatim>\<open>window.SITE_BASE\<close> and \<^verbatim>\<open>window.CLASSES\<close>, the address of the document
  (\<^verbatim>\<open>location.pathname\<close>, and the values \<^verbatim>\<open>sp.get("class")\<close> and \<^verbatim>\<open>sp.get("id")\<close> of
  \<^verbatim>\<open>location.search\<close>), the text \<^verbatim>\<open>Math.random().toString(36).slice(2,8)\<close> drawn for
  item \<open>k\<close> of element \<open>i\<close>, the text of a property that an object literal inherits,
  and the placeholder of a pending script block, whose last code unit (U+2026) is
  beyond the code units of \<^typ>\<open>string\<close>.
\<close>

record env =
  SITE_BASE :: \<open>string option\<close>
  CLASSES :: \<open>string list\<close>
  pathname :: string
  query_class :: \<open>string option\<close>
  query_id :: \<open>string option\<close>
  random_suffix :: \<open>nat \<Rightarrow> nat \<Rightarrow> string\<close>
  inherited_text :: \<open>string \<Rightarrow> string\<close>
  loading_text :: string

text \<open>\<^verbatim>\<open>function normalizeBase(b) { return b && !b.endsWith("/") ? b + "/" : (b || "/"); }\<close>\<close>

definition endsWith :: \<open>string \<Rightarrow> string \<Rightarrow> bool\<close> where
  \<open>endsWith s t = suffix t s\<close>

definition normalizeBase :: \<open>string \<Rightarrow> string\<close> where
  \<open>normalizeBase b = (if b \<noteq> [] \<and> \<not> endsWith b ''/'' then b @ ''/'' else lor (Some b) ''/'')\<close>

text \<open>\<^verbatim>\<open>const BASE = normalizeBase(window.SITE_BASE || "/");\<close>\<close>

definition BASE :: \<open>env \<Rightarrow> string\<close> where
  \<open>BASE e = normalizeBase (lor (SITE_BASE e) ''/'')\<close>

section \<open>Splitting, joining and percent-encoding\<close>

text \<open>\<^verbatim>\<open>str.split("/")\<close>: the pieces between the separators, at least one piece.\<close>

fun split_on :: \<open>char \<Rightarrow> string \<Rightarrow> string list\<close> where
  \<open>split_on sep [] = [[]]\<close>
| \<open>split_on sep (c # cs) =
     (if c = sep then [] # split_on sep cs
      else (case split_on sep cs of [] \<Rightarrow> [[c]] | s # ss \<Rightarrow> (c # s) # ss))\<close>

text \<open>\<^verbatim>\<open>arr.join(sep)\<close> for an array of texts.\<close>

fun join :: \<open>string \<Rightarrow> string list \<Rightarrow> string\<close> where
  \<open>join sep [] = []\<close>
| \<open>join sep [x] = x\<close>
| \<open>join sep (x # y # ys) = x @ sep @ join sep (y # ys)\<close>

text \<open>\<^verbatim>\<open>arr.pop() || ""\<close> on the result of a split.\<close>

definition pop :: \<open>string list \<Rightarrow> string\<close> where
  \<open>pop xs = (if xs = [] then [] else last xs)\<close>

text \<open>
  \<^verbatim>\<open>encodeURIComponent\<close>: the letters, the digits and \<^verbatim>\<open>-_.!~*'()\<close> stand for themselves;
  every other code unit is written as the octets of its UTF-8 encoding, each as \<^verbatim>\<open>%XX\<close> with
  upper-case hexadecimal digits. A code unit below 128 is one octet, one from 128 to 255
  is two.
\<close>

definition unreserved :: \<open>char \<Rightarrow> bool\<close> where
  \<open>unreserved c =
     (is_upper c \<or> is_lower c \<or> is_digit c \<or> c \<in> set (''-_.!~*()'' @ [CHR 0x27]))\<close>

definition hex_digit :: \<open>nat \<Rightarrow> char\<close> where
  \<open>hex_digit n = ''0123456789ABCDEF'' ! (n mod 16)\<close>

definition percent :: \<open>nat \<Rightarrow> string\<close> where
  \<open>percent octet = [CHR ''%'', hex_digit (octet div 16), hex_digit (octet mod 16)]\<close>

definition utf8 :: \<open>char \<Rightarrow> nat list\<close> where
  \<open>utf8 c = (if code c < 128 then [code c] else [192 + code c div 64, 128 + code c mod 64])\<close>

definition encodeURIComponent :: \<open>string \<Rightarrow> string\<close> where
  \<open>encodeURIComponent s =
     concat (map (\<lambda>c. if unreserved c then [c] else concat (map percent (utf8 c))) s)\<close>

text \<open>
  \<^verbatim>\<open>decodeURIComponent\<close>: a \<^verbatim>\<open>%\<close> has to start two hexadecimal digits (of either case). An
  octet below 128 is its code unit; the lead octets C2 and C3 with a continuation octet
  are a code unit from 128 to 255. Any other octet sequence is malformed (\<open>URIError\<close>,
  as the program would throw) or announces a code point above 255, which is reported as
  \<open>OutsideLatin1\<close> without being examined further.
\<close>

definition hex_val :: \<open>char \<Rightarrow> nat option\<close> where
  \<open>hex_val c =
     (if is_digit c then Some (code c - code CHR ''0'')
      else if code CHR ''A'' \<le> code c \<and> code c \<le> code CHR ''F'' then Some (code c - code CHR ''A'' + 10)
      else if code CHR ''a'' \<le> code c \<and> code c \<le> code CHR ''f'' then Some (code c - code CHR ''a'' + 10)
      else None)\<close>

text \<open>The octet written at the head of a text as \<^verbatim>\<open>%XX\<close>, and the text after it.\<close>

definition octet :: \<open>string \<Rightarrow> (nat \<times> string) option\<close> where
  \<open>octet s =
     (case s of
        p # h # l # rest \<Rightarrow>
          (if p = CHR ''%'' then
             (case (hex_val h, hex_val l) of
                (Some a, Some b) \<Rightarrow> Some (16 * a + b, rest)
              | _ \<Rightarrow> None)
           else None)
      | _ \<Rightarrow> None)\<close>

function decodeURIComponent :: \<open>string \<Rightarrow> error + string\<close> where
  \<open>decodeURIComponent s =
     (case s of
        [] \<Rightarrow> Inr []
      | c # cs \<Rightarrow>
          if c \<noteq> CHR ''%'' then
            (case decodeURIComponent cs of Inl e \<Rightarrow> Inl e | Inr r \<Rightarrow> Inr (c # r))
          else
            (case octet s of
               None \<Rightarrow> Inl URIError
             | Some (b, rest) \<Rightarrow>
                 if b < 128 then
                   (case decodeURIComponent (drop 3 s) of
                      Inl e \<Rightarrow> Inl e
                    | Inr r \<Rightarrow> Inr (char_of b # r))
                 else if b < 194 \<or> 248 \<le> b then Inl URIError
                 else if 196 \<le> b then Inl OutsideLatin1
                 else
                   (case octet rest of
                      None \<Rightarrow> Inl URIError
                    | Some (b2, rest2) \<Rightarrow>
                        if 128 \<le> b2 \<and> b2 < 192 then
                          (case decodeURIComponent (drop 6 s) of
                             Inl e \<Rightarrow> Inl e
                           | Inr r \<Rightarrow> Inr (char_of ((b - 192) * 64 + (b2 - 128)) # r))
                        else Inl URIError)))\<close>
  by pat_completeness auto
termination
  by (relation \<open>measure length\<close>) auto

section \<open>The path and template resolver\<close>

text \<open>\<^verbatim>\<open>/\.[^.]+$/\<close>: a dot, then the longest run without a dot, which has to reach the
  end of the input.\<close>

definition ext_re :: regexp where
  \<open>ext_re pre suf =
     (case suf of
        [] \<Rightarrow> None
      | c # cs \<Rightarrow>
          let run = takeWhile (\<lambda>x. x \<noteq> CHR ''.'') cs
          in if c = CHR ''.'' \<and> 1 \<le> length run \<and> drop (length run) cs = []
             then Some (1 + length run, []) else None)\<close>

text \<open>
  \<^verbatim>\<open>function filenameStem(id) {
    const last = String(id || "").split("/").pop() || "";
    return last.replace(/\.[^.]+$/, "");
  }\<close>
\<close>

definition filenameStem :: \<open>string \<Rightarrow> string\<close> where
  \<open>filenameStem ident =
     (let last = pop (split_on CHR ''/'' ident)
      in replaceFirst ext_re [] last)\<close>

text \<open>
  \<^verbatim>\<open>function expandTemplatePath(p, page, ctx) {
    const idStr = String(ctx.id || "");
    const file  = filenameStem(idStr);
    const templatedTitle = String(page.title || idStr)
      .replace(/\{file\}/g, file)
      .replace(/\{class\}/g, ctx.cls || "")
      .replace(/\{id\}/g, idStr);
    return String(p || "")
      .replace(/\{title\}/g, templatedTitle)
      .replace(/\{class\}/g, ctx.cls || "")
      .replace(/\{type\}/g, page.type || "")
      .replace(/\{id\}/g, idStr)
      .replace(/\{file\}/g, file);
  }\<close>
\<close>

definition templatedTitle :: \<open>page \<Rightarrow> route \<Rightarrow> string\<close> where
  \<open>templatedTitle pg ctx =
     (let idStr = lor (ctx_id ctx) [];
          file = filenameStem idStr
      in replaceAll (literal ''{id}'') idStr
           (replaceAll (literal ''{class}'') (lor (ctx_cls ctx) [])
              (replaceAll (literal ''{file}'') file (lor (page_title pg) idStr))))\<close>

definition expandTemplatePath :: \<open>string option \<Rightarrow> page \<Rightarrow> route \<Rightarrow> string\<close> where
  \<open>expandTemplatePath p pg ctx =
     (let idStr = lor (ctx_id ctx) [];
          file = filenameStem idStr
      in replaceAll (literal ''{file}'') file
           (replaceAll (literal ''{id}'') idStr
              (replaceAll (literal ''{type}'') (lor (page_type pg) [])
                 (replaceAll (literal ''{class}'') (lor (ctx_cls ctx) [])
                    (replaceAll (literal ''{title}'') (templatedTitle pg ctx) (lor p []))))))\<close>




text \<open>\<^verbatim>\<open>function isHttp(url) { return /^https?:\/\//i.test(url || ""); }\<close>
  With the flag \<^verbatim>\<open>i\<close> a letter of the pattern matches both of its cases.\<close>

definition to_lower :: \<open>char \<Rightarrow> char\<close> where
  \<open>to_lower c = (if is_upper c then char_of (code c + 32) else c)\<close>

definition prefix_i :: \<open>string \<Rightarrow> string \<Rightarrow> bool\<close> where
  \<open>prefix_i pat s = prefix pat (map to_lower (take (length pat) s))\<close>

definition http_re :: regexp where
  \<open>http_re pre suf =
     (if pre = [] \<and> prefix_i ''https://'' suf then Some (8, [])
      else if pre = [] \<and> prefix_i ''http://'' suf then Some (7, [])
      else None)\<close>

definition isHttp :: \<open>string \<Rightarrow> bool\<close> where
  \<open>isHttp url = test http_re url\<close>

text \<open>\<^verbatim>\<open>function encodeLocalPath(p) { return String(p || "").split("/")
     .map(seg => seg === "" ? "" : encodeURIComponent(seg)).join("/"); }\<close>\<close>

definition encodeLocalPath :: \<open>string \<Rightarrow> string\<close> where
  \<open>encodeLocalPath p =
     join ''/'' (map (\<lambda>seg. if seg = [] then [] else encodeURIComponent seg) (split_on CHR ''/'' p))\<close>

text \<open>\<^verbatim>\<open>/^\/+/\<close>\<close>

definition leading_slashes :: regexp where
  \<open>leading_slashes pre suf =
     (let run = takeWhile (\<lambda>c. c = CHR ''/'') suf
      in if pre = [] \<and> 1 \<le> length run then Some (length run, []) else None)\<close>

text \<open>
  \<^verbatim>\<open>function makeSrc(p, page, ctx) {
    const expanded = expandTemplatePath(p, page, ctx).replace(/^\/+/, "");
    if (isHttp(expanded)) return expanded;
    return BASE + encodeLocalPath(expanded);
  }\<close>
\<close>

definition makeSrc :: \<open>env \<Rightarrow> string option \<Rightarrow> page \<Rightarrow> route \<Rightarrow> string\<close> where
  \<open>makeSrc e p pg ctx =
     (let expanded = replaceFirst leading_slashes [] (expandTemplatePath p pg ctx)
      in if isHttp expanded then expanded else BASE e @ encodeLocalPath expanded)\<close>

section \<open>Route determination\<close>

text \<open>\<^verbatim>\<open>/^\/+|\/+$/g\<close>: a run of slashes at the start of the input, or one that reaches its
  end.\<close>

definition outer_slashes :: regexp where
  \<open>outer_slashes pre suf =
     (let run = takeWhile (\<lambda>c. c = CHR ''/'') suf
      in if 1 \<le> length run \<and> (pre = [] \<or> drop (length run) suf = [])
         then Some (length run, []) else None)\<close>

text \<open>
  \<^verbatim>\<open>function parseRoute() {
    const sp = new URLSearchParams(location.search);
    const clsQ = sp.get("class");
    const idQ  = sp.get("id");
    if (clsQ && idQ) return { cls: decodeURIComponent(clsQ), id: decodeURIComponent(idQ) };

    let path = decodeURIComponent(location.pathname);
    if (BASE !== "/" && path.startsWith(BASE)) path = path.slice(BASE.length);
    const parts = path.replace(/^\/+|\/+$/g, "").split("/");
    if (parts.length >= 2) {
      const cls = parts[0];
      if (CLASSES.length && !CLASSES.includes(cls)) return { cls: null, id: null };
      const id = parts.slice(1).join("/");
      return { cls, id };
    }
    return { cls: null, id: null };
  }\<close>
  A route without class and identifier is the rejected route: \<^verbatim>\<open>boot\<close> shows the card
  \<^verbatim>\<open>Missing route\<close> for it and loads nothing.
\<close>

definition no_route :: route where
  \<open>no_route = \<lparr>ctx_cls = None, ctx_id = None\<rparr>\<close>

definition parseRoute :: \<open>env \<Rightarrow> error + route\<close> where
  \<open>parseRoute e =
     (if truthy (query_class e) \<and> truthy (query_id e) then
        (case decodeURIComponent (the (query_class e)) of
           Inl err \<Rightarrow> Inl err
         | Inr c \<Rightarrow>
             (case decodeURIComponent (the (query_id e)) of
                Inl err \<Rightarrow> Inl err
              | Inr i \<Rightarrow> Inr \<lparr>ctx_cls = Some c, ctx_id = Some i\<rparr>))
      else
        (case decodeURIComponent (pathname e) of
           Inl err \<Rightarrow> Inl err
         | Inr path0 \<Rightarrow>
             let path = (if BASE e \<noteq> ''/'' \<and> prefix (BASE e) path0
                         then drop (length (BASE e)) path0 else path0);
                 parts = split_on CHR ''/'' (replaceAll outer_slashes [] path)
             in if 2 \<le> length parts then
                  (let c = hd parts
                   in if CLASSES e \<noteq> [] \<and> c \<notin> set (CLASSES e) then Inr no_route
                      else Inr \<lparr>ctx_cls = Some c, ctx_id = Some (join ''/'' (tl parts))\<rparr>)
                else Inr no_route))\<close>

section \<open>Helpers of the renderers\<close>









text \<open>\<^verbatim>\<open>/youtu\.be|youtube\.com/\<close>\<close>

definition host_re :: regexp where
  \<open>host_re pre suf =
     (if prefix ''youtu.be'' suf then Some (8, [])
      else if prefix ''youtube.com'' suf then Some (11, [])
      else None)\<close>

text \<open>\<^verbatim>\<open>/(?:v=|\/)([0-9A-Za-z_-]{11})/\<close>\<close>

definition id_char :: \<open>char \<Rightarrow> bool\<close> where
  \<open>id_char c = (is_digit c \<or> is_upper c \<or> is_lower c \<or> c = CHR ''_'' \<or> c = CHR ''-'')\<close>

definition id_re :: regexp where
  \<open>id_re pre suf =
     (let k = (if prefix ''v='' suf then Some 2 else if prefix ''/'' suf then Some 1 else None)
      in case k of
           None \<Rightarrow> None
         | Some k \<Rightarrow>
             let g = take 11 (drop k suf)
             in if length g = 11 \<and> list_all id_char g then Some (k + 11, [Some g]) else None)\<close>

text \<open>\<^verbatim>\<open>/\.(mp4|webm|ogg)(\?|$)/i\<close>\<close>

definition file_re :: regexp where
  \<open>file_re pre suf =
     (case suf of
        [] \<Rightarrow> None
      | c # cs \<Rightarrow>
          let k = (if prefix_i ''mp4'' cs then Some 3
                   else if prefix_i ''webm'' cs then Some 4
                   else if prefix_i ''ogg'' cs then Some 3 else None)
          in (case k of
                None \<Rightarrow> None
              | Some k \<Rightarrow>
                  if c \<noteq> CHR ''.'' then None
                  else if prefix ''?'' (drop k cs) then Some (1 + k + 1, [Some (take k cs), Some ''?''])
                  else if drop k cs = [] then Some (1 + k, [Some (take k cs), Some []])
                  else None))\<close>

text \<open>
  \<^verbatim>\<open>function toVideoEmbed(src) {
    const url = String(src || "");
    if (/youtu\.be|youtube\.com/.test(url)) {
      const idMatch = url.match(/(?:v=|\/)([0-9A-Za-z_-]{11})/);
      const id = idMatch ? idMatch[1] : null;
      const embed = id ? "https://www.youtube.com/embed/" + id : url;
      return `<iframe class="video-frame" src="${embed}" allow="accelerometer; autoplay;
        clipboard-write; encrypted-media; gyroscope; picture-in-picture" allowfullscreen></iframe>`;
    }
    if (/\.(mp4|webm|ogg)(\?|$)/i.test(url)) {
      return `<video class="video-frame" controls src="${url}"></video>`;
    }
    return `<iframe class="video-frame" src="${url}"></iframe>`;
  }\<close>
  (the first template is one line in the source).
\<close>

definition hosted_frame :: \<open>string \<Rightarrow> string\<close> where
  \<open>hosted_frame embedUrl =
     ''<iframe class="video-frame" src="'' @ embedUrl @
     ''" allow="accelerometer; autoplay; clipboard-write; encrypted-media; gyroscope; picture-in-picture" allowfullscreen></iframe>''\<close>

definition video_tag :: \<open>string \<Rightarrow> string\<close> where
  \<open>video_tag url = ''<video class="video-frame" controls src="'' @ url @ ''"></video>''\<close>

definition plain_frame :: \<open>string \<Rightarrow> string\<close> where
  \<open>plain_frame url = ''<iframe class="video-frame" src="'' @ url @ ''"></iframe>''\<close>

definition toVideoEmbed :: \<open>string \<Rightarrow> string\<close> where
  \<open>toVideoEmbed url =
     (if test host_re url then
        (let idMatch = search id_re [] url;
             ident = (case idMatch of None \<Rightarrow> None | Some (n, caps) \<Rightarrow> Some (capture caps 1));
             embedUrl = (if truthy ident then ''https://www.youtube.com/embed/'' @ the ident else url)
         in hosted_frame embedUrl)
      else if test file_re url then video_tag url
      else plain_frame url)\<close>

section \<open>The renderers\<close>


text \<open>A number in a template literal is written in decimal.\<close>

function show_nat :: \<open>nat \<Rightarrow> string\<close> where
  \<open>show_nat n =
     (if n < 10 then [''0123456789'' ! n] else show_nat (n div 10) @ [''0123456789'' ! (n mod 10)])\<close>
  by pat_completeness auto
termination
  by (relation \<open>measure id\<close>) auto



















section \<open>The page composer\<close>











section \<open>Hydration of the pending script blocks\<close>

text \<open>
  \<^verbatim>\<open>async function hydrateCodeBlocks(root) {
    const list = Array.from(root.querySelectorAll('pre.code-window[data-src]'));
    await Promise.all(list.map(async (pre) => {
      const url = pre.getAttribute('data-src');
      try {
        const r = await fetch(url, { cache: 'no-store' });
        pre.textContent = r.ok ? (await r.text()) : `Failed to load: ${url}`;
      } catch (e) {
        pre.textContent = `Error loading: ${url}`;
      }
    }));
  }\<close>
  The mounted document is the list of its nodes, of which the model keeps whether a node
  is a \<^verbatim>\<open>pre\<close> of the class \<^verbatim>\<open>code-window\<close>, its attribute \<^verbatim>\<open>data-src\<close> and its text.
  The network is a function from the locator to what \<^verbatim>\<open>fetch\<close> settles to: a response
  with its flag \<^verbatim>\<open>ok\<close> and the outcome of \<^verbatim>\<open>r.text()\<close> (\<open>None\<close> when reading the body
  fails), or a rejection. Each callback runs up to its first \<^verbatim>\<open>await\<close> and is resumed when
  its own request settles; \<open>schedule\<close> lists the selected nodes in the order in which
  their callbacks are resumed.
\<close>

record node =
  code_window :: bool
  data_src :: \<open>string option\<close>
  textContent :: string

datatype settled = Response bool \<open>string option\<close> | Rejected

definition selected :: \<open>node list \<Rightarrow> nat list\<close> where
  \<open>selected root = filter (\<lambda>i. code_window (root ! i) \<and> data_src (root ! i) \<noteq> None) [0..<length root]\<close>

definition settle_text :: \<open>(string \<Rightarrow> settled) \<Rightarrow> string \<Rightarrow> string\<close> where
  \<open>settle_text fetch url =
     (case fetch url of
        Response ok body \<Rightarrow>
          if ok then (case body of Some text \<Rightarrow> text | None \<Rightarrow> ''Error loading: '' @ url)
          else ''Failed to load: '' @ url
      | Rejected \<Rightarrow> ''Error loading: '' @ url)\<close>

definition resume :: \<open>(string \<Rightarrow> settled) \<Rightarrow> node list \<Rightarrow> nat \<Rightarrow> node list\<close> where
  \<open>resume fetch root i =
     (case data_src (root ! i) of
        None \<Rightarrow> root
      | Some url \<Rightarrow> root[i := (root ! i)\<lparr>textContent := settle_text fetch url\<rparr>])\<close>

definition hydrateCodeBlocks :: \<open>(string \<Rightarrow> settled) \<Rightarrow> nat list \<Rightarrow> node list \<Rightarrow> node list\<close> where
  \<open>hydrateCodeBlocks fetch schedule root = foldl (resume fetch) root schedule\<close>

section \<open>Predicates of the statements and example data\<close>


text \<open>What a callback of \<^verbatim>\<open>hydrateCodeBlocks\<close> leaves in its node.\<close>

definition hydrated :: \<open>(string \<Rightarrow> settled) \<Rightarrow> node \<Rightarrow> node\<close> where
  \<open>hydrated fetch n =
     (case data_src n of None \<Rightarrow> n | Some url \<Rightarrow> n\<lparr>textContent := settle_text fetch url\<rparr>)\<close>

definition ex_env :: env where
  \<open>ex_env =
     \<lparr>SITE_BASE = Some ''/eng-portfolio'', CLASSES = [''DE''],
      pathname = ''/eng-portfolio/DE/1.1.9%20Soldering'', query_class = None, query_id = None,
      random_suffix = (\<lambda>i k. ''k3x9zq''), inherited_text = (\<lambda>k. ''[object Object]''),
      loading_text = ''Loading script...''\<rparr>\<close>

definition ex_route :: route where
  \<open>ex_route = \<lparr>ctx_cls = Some ''DE'', ctx_id = Some ''1.1.9 Soldering''\<rparr>\<close>

definition ex_page :: page where
  \<open>ex_page =
     \<lparr>page_title = Some ''{id}'', page_name = None, page_date = None, page_type = Some ''Lab'',
      page_brief = Some [''line one''], page_elements = None\<rparr>\<close>




definition ex_fetch :: \<open>string \<Rightarrow> settled\<close> where
  \<open>ex_fetch url =
     (if url = ''/a.py'' then Response True (Some ''print(1)'')
      else if url = ''/b.py'' then Response False (Some ''Not Found'')
      else Rejected)\<close>

definition ex_root :: \<open>node list\<close> where
  \<open>ex_root =
     [\<lparr>code_window = True, data_src = Some ''/a.py'', textContent = ''Loading''\<rparr>,
      \<lparr>code_window = True, data_src = Some ''/b.py'', textContent = ''Loading''\<rparr>,
      \<lparr>code_window = True, data_src = Some ''/c.py'', textContent = ''Loading''\<rparr>,
      \<lparr>code_window = True, data_src = None, textContent = ''x = 1''\<rparr>]\<close>

section \<open>Templates as pieces\<close>

text \<open>
  The statements about placeholder expansion speak of a template as a sequence of
  pieces: literal text without an opening brace, and tokens \<^verbatim>\<open>{name}\<close> whose name has no
  brace. \<open>template\<close> is the text of a sequence. A context value is plain when it has
  neither an opening brace nor a dollar sign (which \<^verbatim>\<open>replace\<close> would interpret in a
  replacement text).
\<close>

datatype piece = Lit string | Tok string

definition piece_text :: \<open>piece \<Rightarrow> string\<close> where
  \<open>piece_text p = (case p of Lit s \<Rightarrow> s | Tok k \<Rightarrow> ''{'' @ k @ ''}'')\<close>

definition template :: \<open>piece list \<Rightarrow> string\<close> where
  \<open>template ps = concat (map piece_text ps)\<close>








text \<open>The five tokens of \<^const>\<open>expandTemplatePath\<close>.\<close>

definition placeholders :: \<open>string list\<close> where
  \<open>placeholders = [''{title}'', ''{class}'', ''{type}'', ''{id}'', ''{file}'']\<close>

section \<open>Classes of video references\<close>

text \<open>
  The three tests of \<^const>\<open>toVideoEmbed\<close> said without regular expressions: a reference
  is hosted when it contains one of the two host names; its identifier is the eleven
  identifier characters after the first \<^verbatim>\<open>v=\<close> or \<^verbatim>\<open>/\<close> that is followed by eleven of
  them; it is a video file when, letters of either case, it ends in one of the three
  extensions or has one of them directly before a question mark.
\<close>

definition hosted :: \<open>string \<Rightarrow> bool\<close> where
  \<open>hosted url = (sublist ''youtu.be'' url \<or> sublist ''youtube.com'' url)\<close>

definition id11 :: \<open>string \<Rightarrow> bool\<close> where
  \<open>id11 s = (11 \<le> length s \<and> list_all id_char (take 11 s))\<close>

fun first_id :: \<open>string \<Rightarrow> string option\<close> where
  \<open>first_id [] = None\<close>
| \<open>first_id (c # cs) =
     (if prefix ''v='' (c # cs) \<and> id11 (drop 2 (c # cs)) then Some (take 11 (drop 2 (c # cs)))
      else if c = CHR ''/'' \<and> id11 cs then Some (take 11 cs)
      else first_id cs)\<close>

definition video_file :: \<open>string \<Rightarrow> bool\<close> where
  \<open>video_file url =
     (\<exists>ext\<in>set [''.mp4'', ''.webm'', ''.ogg''].
        suffix ext (map to_lower url) \<or> sublist (ext @ ''?'') (map to_lower url))\<close>

section \<open>Unfolding the recursive functions\<close>

text \<open>The equations of the functions that scan a text are applied one step at a time.\<close>

declare replace_g.simps [simp del] replace_1.simps [simp del] search.simps [simp del]
  decodeURIComponent.simps [simp del] show_nat.simps [simp del]

lemma replace_g_Nil: \<open>replace_g m sub pre [] = []\<close>
  by (simp add: replace_g.simps)

lemma replace_g_skip:
  \<open>m pre (c # cs) = None \<Longrightarrow> replace_g m sub pre (c # cs) = c # replace_g m sub (pre @ [c]) cs\<close>
  by (subst replace_g.simps) simp


lemma replace_1_miss:
  \<open>m pre suf = None \<Longrightarrow>
   replace_1 m t pre suf = (case suf of [] \<Rightarrow> [] | c # cs \<Rightarrow> c # replace_1 m t (pre @ [c]) cs)\<close>
  by (subst replace_1.simps) simp

lemma replace_1_hit:
  \<open>m pre suf = Some (n, caps) \<Longrightarrow>
   replace_1 m t pre suf =
     GetSubstitution (take n suf) (pre @ suf) (length pre) caps t @ drop n suf\<close>
  by (subst replace_1.simps) simp

lemma search_Nil: \<open>search m pre [] = m pre []\<close>
  by (subst search.simps) (simp split: option.splits)

lemma search_Cons:
  \<open>search m pre (c # cs) = (case m pre (c # cs) of Some r \<Rightarrow> Some r | None \<Rightarrow> search m (pre @ [c]) cs)\<close>
  by (subst search.simps) (simp split: option.splits)



lemma lor_Some: \<open>lor (Some s) [] = s\<close>
  by (simp add: lor_def)



section \<open>Rich text: the escaping step\<close>

text \<open>
  C1. The formatter escapes its input before the three markup substitutions. The table of
  \<^const>\<open>escapeHtml\<close> has the key \<^verbatim>\<open>&gt;\<close> where the character \<^verbatim>\<open>>\<close> is meant, so a
  greater-than sign of the input is replaced by the text \<^verbatim>\<open>undefined\<close> and not by its
  entity; the other four characters are replaced by their entities.
\<close>

theorem richText_gt_undefined:
  \<open>richText ''>'' = ''undefined'' \<and> escapeHtml ''a>b'' = ''aundefinedb''
   \<and> escapeHtml (''&<"'' @ [CHR 0x27]) = ''&amp;&lt;&quot;&#39;''\<close>
  by code_simp

section \<open>Route determination: the allow-list\<close>

text \<open>
  C2. A route whose class is not in a non-empty allow-list is to be rejected, whether it
  comes from the query parameters or from the path. \<^const>\<open>parseRoute\<close> tests the list on
  the path only: with the list \<^verbatim>\<open>["DE"]\<close>, the query \<^verbatim>\<open>?class=XX&id=1\<close> gives the route
  of class \<^verbatim>\<open>XX\<close>, while the path \<^verbatim>\<open>/eng-portfolio/XX/1\<close> is rejected.
\<close>

theorem parseRoute_query_unchecked:
  \<open>parseRoute \<lparr>SITE_BASE = Some ''/eng-portfolio'', CLASSES = [''DE''],
       pathname = ''/eng-portfolio/interpreter.html'', query_class = Some ''XX'',
       query_id = Some ''1'', random_suffix = (\<lambda>i k. []), inherited_text = (\<lambda>k. []),
       loading_text = []\<rparr>
     = Inr \<lparr>ctx_cls = Some ''XX'', ctx_id = Some ''1''\<rparr>
   \<and> parseRoute \<lparr>SITE_BASE = Some ''/eng-portfolio'', CLASSES = [''DE''],
       pathname = ''/eng-portfolio/XX/1'', query_class = None,
       query_id = None, random_suffix = (\<lambda>i k. []), inherited_text = (\<lambda>k. []),
       loading_text = []\<rparr>
     = Inr no_route\<close>
  by code_simp

section \<open>Placeholder expansion\<close>














section \<open>Absolute locators\<close>

text \<open>A pattern that does not occur leaves the text as it is.\<close>

lemma replace_g_absent:
  \<open>\<not> sublist pat s \<Longrightarrow> replace_g (literal pat) sub pre s = s\<close>
proof (induction s arbitrary: pre)
  case Nil
  then show ?case by (simp add: replace_g_Nil)
next
  case (Cons c s)
  have \<open>\<not> prefix pat (c # s)\<close> using Cons.prems by auto
  moreover have \<open>\<not> sublist pat s\<close> using Cons.prems by (auto simp: sublist_Cons_right)
  ultimately show ?case using Cons.IH by (simp add: replace_g_skip literal_def)
qed

lemma replaceAll_absent: \<open>\<not> sublist pat s \<Longrightarrow> replaceAll (literal pat) v s = s\<close>
  by (simp add: replaceAll_def replace_g_absent)

lemma expand_absent:
  assumes \<open>\<forall>tok\<in>set placeholders. \<not> sublist tok r\<close>
  shows \<open>expandTemplatePath (Some r) pg ctx = r\<close>
  using assms by (simp add: expandTemplatePath_def placeholders_def Let_def lor_Some replaceAll_absent)

lemma replace_1_leading:
  \<open>pre \<noteq> [] \<Longrightarrow> replace_1 leading_slashes t pre suf = suf\<close>
proof (induction suf arbitrary: pre)
  case Nil
  then show ?case by (simp add: replace_1_miss leading_slashes_def)
next
  case (Cons c suf)
  have \<open>leading_slashes pre (c # suf) = None\<close>
    using Cons.prems by (simp add: leading_slashes_def Let_def)
  then show ?case using Cons.IH [of \<open>pre @ [c]\<close>] by (simp add: replace_1_miss)
qed

lemma strip_leading: \<open>replaceFirst leading_slashes [] s = dropWhile (\<lambda>c. c = CHR ''/'') s\<close>
proof (cases s)
  case Nil
  then show ?thesis by (simp add: replaceFirst_def replace_1_miss leading_slashes_def)
next
  case (Cons c cs)
  show ?thesis
  proof (cases \<open>c = CHR ''/''\<close>)
    case True
    let ?n = \<open>length (takeWhile (\<lambda>c. c = CHR ''/'') s)\<close>
    have \<open>leading_slashes [] s = Some (?n, [])\<close>
      using True Cons by (simp add: leading_slashes_def Let_def)
    from replace_1_hit [where m = leading_slashes and pre = \<open>[]\<close> and suf = s and t = \<open>[]\<close>, OF this]
    show ?thesis
      by (simp add: replaceFirst_def dropWhile_eq_drop)
  next
    case False
    then have \<open>leading_slashes [] s = None\<close>
      using Cons by (simp add: leading_slashes_def Let_def)
    from replace_1_miss [where m = leading_slashes and pre = \<open>[]\<close> and suf = s and t = \<open>[]\<close>, OF this]
    show ?thesis
      using False Cons by (simp add: replaceFirst_def replace_1_leading)
  qed
qed

lemma search_http: \<open>pre \<noteq> [] \<Longrightarrow> search http_re pre suf = None\<close>
  by (induction suf arbitrary: pre) (auto simp: http_re_def search_Nil search_Cons)

lemma search_http_start:
  \<open>search http_re [] url =
     (if prefix_i ''https://'' url then Some (8, [])
      else if prefix_i ''http://'' url then Some (7, []) else None)\<close>
proof (cases url)
  case Nil
  then show ?thesis by (simp add: http_re_def prefix_i_def search_Nil)
next
  case (Cons c cs)
  have \<open>search http_re [c] cs = None\<close> by (rule search_http) simp
  then show ?thesis using Cons
    by (simp add: http_re_def search_Cons)
qed

lemma isHttp_iff: \<open>isHttp url \<longleftrightarrow> prefix_i ''https://'' url \<or> prefix_i ''http://'' url\<close>
  by (simp add: isHttp_def test_def search_http_start)

lemma isHttp_no_slash: \<open>isHttp url \<Longrightarrow> dropWhile (\<lambda>c. c = CHR ''/'') url = url\<close>
  by (cases url) (auto simp: isHttp_iff prefix_i_def to_lower_def is_upper_def code_def split: if_splits)

text \<open>
  C4, as amended. A reference that is an absolute \<^verbatim>\<open>http\<close> or \<^verbatim>\<open>https\<close> locator after
  expansion and stripping is returned as it is, neither prefixed nor encoded; and when
  the returned locator contains none of the five placeholder tokens, resolving it again
  gives the same locator.
\<close>

theorem absolute_locator_idempotent:
  assumes \<open>isHttp (replaceFirst leading_slashes [] (expandTemplatePath p pg ctx))\<close>
  shows \<open>makeSrc e p pg ctx = replaceFirst leading_slashes [] (expandTemplatePath p pg ctx)
    \<and> ((\<forall>tok\<in>set placeholders. \<not> sublist tok (makeSrc e p pg ctx)) \<longrightarrow>
         makeSrc e (Some (makeSrc e p pg ctx)) pg ctx = makeSrc e p pg ctx)\<close>
proof -
  let ?r = \<open>replaceFirst leading_slashes [] (expandTemplatePath p pg ctx)\<close>
  have m: \<open>makeSrc e p pg ctx = ?r\<close> using assms by (simp add: makeSrc_def Let_def)
  have \<open>makeSrc e (Some ?r) pg ctx = ?r\<close> if \<open>\<forall>tok\<in>set placeholders. \<not> sublist tok ?r\<close>
  proof -
    have \<open>expandTemplatePath (Some ?r) pg ctx = ?r\<close> using that by (rule expand_absent)
    moreover have \<open>replaceFirst leading_slashes [] ?r = ?r\<close>
      using assms isHttp_no_slash by (simp only: strip_leading [of ?r])
    ultimately show ?thesis using assms by (simp add: makeSrc_def Let_def)
  qed
  then show ?thesis using m by simp
qed

theorem absolute_locator_idempotent_witness:
  \<open>makeSrc ex_env (Some ''https://cdn.example.org/{class}/{file}.pdf'') ex_page ex_route =
     ''https://cdn.example.org/DE/1.1.pdf''
   \<and> makeSrc ex_env (Some ''https://cdn.example.org/DE/1.1.pdf'') ex_page ex_route =
     ''https://cdn.example.org/DE/1.1.pdf''\<close>
proof -
  let ?p = \<open>Some ''https://cdn.example.org/{class}/{file}.pdf''\<close>
  have x: \<open>replaceFirst leading_slashes [] (expandTemplatePath ?p ex_page ex_route) =
      ''https://cdn.example.org/DE/1.1.pdf''\<close>
    by code_simp
  have h: \<open>isHttp (replaceFirst leading_slashes [] (expandTemplatePath ?p ex_page ex_route))\<close>
    unfolding x by code_simp
  have n: \<open>\<forall>tok\<in>set placeholders. \<not> sublist tok ''https://cdn.example.org/DE/1.1.pdf''\<close>
    by code_simp
  note t = absolute_locator_idempotent [OF h, of ex_env, unfolded x]
  from t have m: \<open>makeSrc ex_env ?p ex_page ex_route = ''https://cdn.example.org/DE/1.1.pdf''\<close>
    by (rule conjunct1)
  from t n show ?thesis unfolding m by blast
qed

text \<open>The claim as stated fails when a context value carries a token that an earlier
  replacement of the same pass has already passed: the identifier \<^verbatim>\<open>{class}\<close> is put in
  after the classes are replaced, and is replaced itself by a second resolution.\<close>

theorem absolute_locator_counterexample:
  \<open>isHttp (replaceFirst leading_slashes []
      (expandTemplatePath (Some ''https://cdn.example.org/{id}.pdf'') ex_page
         (ex_route\<lparr>ctx_id := Some ''{class}''\<rparr>)))
   \<and> makeSrc ex_env
        (Some (makeSrc ex_env (Some ''https://cdn.example.org/{id}.pdf'') ex_page
           (ex_route\<lparr>ctx_id := Some ''{class}''\<rparr>)))
        ex_page (ex_route\<lparr>ctx_id := Some ''{class}''\<rparr>)
      \<noteq> makeSrc ex_env (Some ''https://cdn.example.org/{id}.pdf'') ex_page
        (ex_route\<lparr>ctx_id := Some ''{class}''\<rparr>)
   \<and> makeSrc ex_env (Some ''https://cdn.example.org/{id}.pdf'') ex_page
        (ex_route\<lparr>ctx_id := Some ''{class}''\<rparr>) = ''https://cdn.example.org/{class}.pdf''
   \<and> makeSrc ex_env (Some ''https://cdn.example.org/{class}.pdf'') ex_page
        (ex_route\<lparr>ctx_id := Some ''{class}''\<rparr>) = ''https://cdn.example.org/DE.pdf''\<close>
  by code_simp

section \<open>Local references\<close>

lemma split_on_not_Nil [simp]: \<open>split_on sep s \<noteq> []\<close>
  by (induction s) (auto split: list.splits)


lemma split_on_no_sep: \<open>x \<in> set (split_on sep s) \<Longrightarrow> sep \<notin> set x\<close>
  by (induction s arbitrary: x) (auto split: if_splits list.splits)
























section \<open>Order of the elements\<close>







section \<open>Image alignment\<close>









section \<open>Video references\<close>

lemma test_host: \<open>search host_re pre url \<noteq> None \<longleftrightarrow> hosted url\<close>
proof (induction url arbitrary: pre)
  case Nil
  then show ?case by (simp add: search_Nil host_re_def hosted_def)
next
  case (Cons c cs)
  then show ?case
    by (auto simp: search_Cons host_re_def hosted_def sublist_Cons_right split: option.splits if_splits)
qed

lemma id_re_Cons:
  \<open>id_re pre (c # cs) =
     (if prefix ''v='' (c # cs) \<and> id11 (drop 2 (c # cs))
      then Some (13, [Some (take 11 (drop 2 (c # cs)))])
      else if c = CHR ''/'' \<and> id11 cs then Some (12, [Some (take 11 cs)])
      else None)\<close>
  by (auto simp: id_re_def id11_def Let_def)

lemma search_id:
  \<open>(case search id_re pre url of None \<Rightarrow> None | Some (n, caps) \<Rightarrow> Some (capture caps 1)) = first_id url\<close>
proof (induction url arbitrary: pre)
  case Nil
  then show ?case by (simp add: search_Nil id_re_def)
next
  case (Cons c cs)
  then show ?case
    unfolding search_Cons id_re_Cons by (simp add: capture_def)
qed

lemma first_id_length: \<open>first_id url = Some g \<Longrightarrow> g \<noteq> []\<close>
  by (induction url) (auto simp: id11_def split: if_splits)

lemma code_to_lower: \<open>code (to_lower x) = (if is_upper x then code x + 32 else code x)\<close>
  by (simp add: to_lower_def is_upper_def code_def)

lemma code_inject: \<open>code x = code y \<longleftrightarrow> x = y\<close>
  by (simp add: code_def)

lemma to_lower_mark [simp]:
  \<open>to_lower x = CHR ''?'' \<longleftrightarrow> x = CHR ''?''\<close>
  \<open>to_lower x = CHR ''.'' \<longleftrightarrow> x = CHR ''.''\<close>
  unfolding code_inject [symmetric] code_to_lower
  by (auto simp: is_upper_def code_def)

lemma prefix_i_take: \<open>prefix_i e cs \<longleftrightarrow> take (length e) (map to_lower cs) = e\<close>
proof -
  have \<open>prefix e x \<longleftrightarrow> x = e\<close> if \<open>length x \<le> length e\<close> for x :: string
    using that by (auto simp: prefix_def)
  then show ?thesis by (simp add: prefix_i_def take_map)
qed

lemma ext_then:
  assumes \<open>length e = k\<close>
  shows \<open>take k (map to_lower cs) = e \<and> (prefix ''?'' (drop k cs) \<or> drop k cs = []) \<longleftrightarrow>
    map to_lower cs = e \<or> prefix (e @ ''?'') (map to_lower cs)\<close>
    (is \<open>?l \<longleftrightarrow> ?r\<close>)
proof
  assume l: ?l
  have \<open>map to_lower cs = take k (map to_lower cs) @ map to_lower (drop k cs)\<close>
    by (simp add: drop_map [symmetric])
  then have \<open>map to_lower cs = e @ map to_lower (drop k cs)\<close> using l by simp
  then show ?r using l by (cases \<open>drop k cs\<close>) (auto simp: prefix_def)
next
  assume r: ?r
  then show ?l
  proof
    assume \<open>map to_lower cs = e\<close>
    then show ?l using assms by (metis drop_all length_map order_refl take_all)
  next
    assume \<open>prefix (e @ ''?'') (map to_lower cs)\<close>
    then obtain z where z: \<open>map to_lower cs = e @ CHR ''?'' # z\<close> by (auto simp: prefix_def)
    then have t: \<open>take k (map to_lower cs) = e\<close> using assms by simp
    from z have \<open>map to_lower (drop k cs) = CHR ''?'' # z\<close>
      using assms by (simp add: drop_map [symmetric])
    then have \<open>prefix ''?'' (drop k cs)\<close>
      by (cases \<open>drop k cs\<close>) auto
    then show ?l using t by simp
  qed
qed

lemma prefix_i_hd: \<open>prefix_i (a # as) cs \<Longrightarrow> cs \<noteq> [] \<and> to_lower (hd cs) = a\<close>
  by (cases cs) (auto simp: prefix_i_def)

lemma file_re_Cons:
  \<open>file_re pre (c # cs) \<noteq> None \<longleftrightarrow>
      c = CHR ''.'' \<and>
      (prefix_i ''mp4'' cs \<and> (prefix ''?'' (drop 3 cs) \<or> drop 3 cs = [])
       \<or> prefix_i ''webm'' cs \<and> (prefix ''?'' (drop 4 cs) \<or> drop 4 cs = [])
       \<or> prefix_i ''ogg'' cs \<and> (prefix ''?'' (drop 3 cs) \<or> drop 3 cs = []))\<close>
proof -
  consider (mp4) \<open>prefix_i ''mp4'' cs\<close>
    | (webm) \<open>\<not> prefix_i ''mp4'' cs\<close> \<open>prefix_i ''webm'' cs\<close>
    | (ogg) \<open>\<not> prefix_i ''mp4'' cs\<close> \<open>\<not> prefix_i ''webm'' cs\<close> \<open>prefix_i ''ogg'' cs\<close>
    | (none) \<open>\<not> prefix_i ''mp4'' cs\<close> \<open>\<not> prefix_i ''webm'' cs\<close> \<open>\<not> prefix_i ''ogg'' cs\<close>
    by blast
  then show ?thesis
  proof cases
    case mp4
    then have \<open>\<not> prefix_i ''webm'' cs\<close> \<open>\<not> prefix_i ''ogg'' cs\<close>
      using prefix_i_hd [of \<open>CHR ''m''\<close> \<open>''p4''\<close> cs] prefix_i_hd [of \<open>CHR ''w''\<close> \<open>''ebm''\<close> cs]
        prefix_i_hd [of \<open>CHR ''o''\<close> \<open>''gg''\<close> cs] by auto
    then show ?thesis using mp4 by (simp add: file_re_def)
  next
    case webm
    then have \<open>\<not> prefix_i ''ogg'' cs\<close>
      using prefix_i_hd [of \<open>CHR ''w''\<close> \<open>''ebm''\<close> cs]
        prefix_i_hd [of \<open>CHR ''o''\<close> \<open>''gg''\<close> cs] by auto
    then show ?thesis using webm by (simp add: file_re_def)
  next
    case ogg
    then show ?thesis by (simp add: file_re_def)
  next
    case none
    then show ?thesis by (simp add: file_re_def)
  qed
qed

lemma ext_i:
  \<open>prefix_i e cs \<and> (prefix ''?'' (drop (length e) cs) \<or> drop (length e) cs = []) \<longleftrightarrow>
     map to_lower cs = e \<or> prefix (e @ ''?'') (map to_lower cs)\<close>
  using ext_then [OF refl, of e cs] by (simp only: prefix_i_take)

lemma file_re_iff:
  \<open>file_re pre s \<noteq> None \<longleftrightarrow>
     (\<exists>ext\<in>set [''.mp4'', ''.webm'', ''.ogg''].
        ext = map to_lower s \<or> prefix (ext @ ''?'') (map to_lower s))\<close>
proof (cases s)
  case Nil
  then show ?thesis by (simp add: file_re_def)
next
  case (Cons c cs)
  have e1: \<open>prefix_i ''mp4'' cs \<and> (prefix ''?'' (drop 3 cs) \<or> drop 3 cs = []) \<longleftrightarrow>
      map to_lower cs = ''mp4'' \<or> prefix ''mp4?'' (map to_lower cs)\<close>
    using ext_i [of \<open>''mp4''\<close> cs] by (simp add: eval_nat_numeral)
  have e2: \<open>prefix_i ''webm'' cs \<and> (prefix ''?'' (drop 4 cs) \<or> drop 4 cs = []) \<longleftrightarrow>
      map to_lower cs = ''webm'' \<or> prefix ''webm?'' (map to_lower cs)\<close>
    using ext_i [of \<open>''webm''\<close> cs] by (simp add: eval_nat_numeral)
  have e3: \<open>prefix_i ''ogg'' cs \<and> (prefix ''?'' (drop 3 cs) \<or> drop 3 cs = []) \<longleftrightarrow>
      map to_lower cs = ''ogg'' \<or> prefix ''ogg?'' (map to_lower cs)\<close>
    using ext_i [of \<open>''ogg''\<close> cs] by (simp add: eval_nat_numeral)
  have d: \<open>CHR ''.'' = to_lower c \<longleftrightarrow> c = CHR ''.''\<close>
    by (metis to_lower_mark(2))
  show ?thesis
    unfolding Cons file_re_Cons e1 e2 e3 by (auto simp: d)
qed

lemma bex_split:
  \<open>(\<exists>x\<in>A. (P x \<or> Q x) \<or> (R x \<or> S x)) \<longleftrightarrow> (\<exists>x\<in>A. P x \<or> R x) \<or> (\<exists>x\<in>A. Q x \<or> S x)\<close>
  by blast

lemma test_file: \<open>search file_re pre url \<noteq> None \<longleftrightarrow> video_file url\<close>
proof (induction url arbitrary: pre)
  case Nil
  have \<open>file_re pre [] = None\<close> by (simp add: file_re_def)
  moreover have \<open>\<not> video_file []\<close> by (simp add: video_file_def)
  ultimately show ?case by (simp add: search_Nil)
next
  case (Cons c cs)
  let ?S = \<open>set [''.mp4'', ''.webm'', ''.ogg'']\<close>
  let ?L = \<open>map to_lower cs\<close>
  have \<open>search file_re pre (c # cs) \<noteq> None \<longleftrightarrow>
      file_re pre (c # cs) \<noteq> None \<or> search file_re (pre @ [c]) cs \<noteq> None\<close>
    by (cases \<open>file_re pre (c # cs)\<close>) (simp_all add: search_Cons)
  also have \<open>\<dots> \<longleftrightarrow> file_re pre (c # cs) \<noteq> None \<or> video_file cs\<close>
    by (simp only: Cons.IH)
  also have \<open>\<dots> \<longleftrightarrow>
      (\<exists>ext\<in>?S. ext = to_lower c # ?L \<or> prefix (ext @ ''?'') (to_lower c # ?L))
      \<or> (\<exists>ext\<in>?S. suffix ext ?L \<or> sublist (ext @ ''?'') ?L)\<close>
    by (simp only: file_re_iff video_file_def list.map)
  also have \<open>\<dots> \<longleftrightarrow>
      (\<exists>ext\<in>?S. (ext = to_lower c # ?L \<or> suffix ext ?L)
         \<or> (prefix (ext @ ''?'') (to_lower c # ?L) \<or> sublist (ext @ ''?'') ?L))\<close>
    by (rule bex_split [symmetric])
  also have \<open>\<dots> \<longleftrightarrow> video_file (c # cs)\<close>
    by (simp only: video_file_def list.map suffix_Cons sublist_Cons_right)
  finally show ?case .
qed

text \<open>
  C8, as amended. A reference that contains one of the host names becomes the frame with
  the playback permissions, at the canonical embed locator of its identifier when it has
  one and at the reference itself otherwise. A reference without a host name that ends
  in \<^verbatim>\<open>.mp4\<close>, \<^verbatim>\<open>.webm\<close> or \<^verbatim>\<open>.ogg\<close>, or has one of them before a question mark, becomes
  the native video element. Any other reference becomes the plain frame.
\<close>

theorem video_classification:
  \<open>(hosted url \<and> first_id url = Some g \<longrightarrow>
       toVideoEmbed url = hosted_frame (''https://www.youtube.com/embed/'' @ g))
   \<and> (hosted url \<and> first_id url = None \<longrightarrow> toVideoEmbed url = hosted_frame url)
   \<and> (\<not> hosted url \<and> video_file url \<longrightarrow> toVideoEmbed url = video_tag url)
   \<and> (\<not> hosted url \<and> \<not> video_file url \<longrightarrow> toVideoEmbed url = plain_frame url)\<close>
proof -
  have h: \<open>test host_re url \<longleftrightarrow> hosted url\<close> by (simp only: test_def test_host)
  have f: \<open>test file_re url \<longleftrightarrow> video_file url\<close> by (simp only: test_def test_file)
  have i: \<open>(case search id_re [] url of None \<Rightarrow> None | Some (n, caps) \<Rightarrow> Some (capture caps 1)) =
      first_id url\<close>
    by (rule search_id)
  show ?thesis
    using first_id_length [of url]
    by (auto simp: toVideoEmbed_def Let_def h f i truthy_def)
qed

theorem video_classification_witness:
  \<open>toVideoEmbed ''https://www.youtube.com/watch?v=dQw4w9WgXcQ'' =
     hosted_frame ''https://www.youtube.com/embed/dQw4w9WgXcQ''
   \<and> toVideoEmbed ''https://www.youtube.com/playlist?list=PL1'' =
     hosted_frame ''https://www.youtube.com/playlist?list=PL1''
   \<and> toVideoEmbed ''/eng-portfolio/videos/run.MP4'' = video_tag ''/eng-portfolio/videos/run.MP4''
   \<and> toVideoEmbed ''https://vimeo.com/12345'' = plain_frame ''https://vimeo.com/12345''\<close>
proof -
  have 1: \<open>hosted ''https://www.youtube.com/watch?v=dQw4w9WgXcQ''
      \<and> first_id ''https://www.youtube.com/watch?v=dQw4w9WgXcQ'' = Some ''dQw4w9WgXcQ''\<close>
    by code_simp
  have 2: \<open>hosted ''https://www.youtube.com/playlist?list=PL1''
      \<and> first_id ''https://www.youtube.com/playlist?list=PL1'' = None\<close>
    by code_simp
  have 3: \<open>\<not> hosted ''/eng-portfolio/videos/run.MP4'' \<and> video_file ''/eng-portfolio/videos/run.MP4''\<close>
    by code_simp
  have 4: \<open>\<not> hosted ''https://vimeo.com/12345'' \<and> \<not> video_file ''https://vimeo.com/12345''\<close>
    by code_simp
  note a = video_classification [THEN conjunct1, rule_format, OF 1]
  note b = video_classification [THEN conjunct2, THEN conjunct1, rule_format, OF 2]
  note c = video_classification [THEN conjunct2, THEN conjunct2, THEN conjunct1, rule_format, OF 3]
  note d = video_classification [THEN conjunct2, THEN conjunct2, THEN conjunct2, rule_format, OF 4]
  show ?thesis unfolding a b c d by simp
qed

text \<open>The claim as stated fails: a reference that ends in \<^verbatim>\<open>.mp4\<close> and contains a host
  name is a frame, not a video element; and a reference with \<^verbatim>\<open>.mp4\<close> before its query
  does not end in the extension, yet is a video element and not the plain frame.\<close>

theorem video_classification_counterexample:
  \<open>suffix ''.mp4'' ''https://files.example.org/youtube.com-clip.mp4''
   \<and> toVideoEmbed ''https://files.example.org/youtube.com-clip.mp4'' \<noteq>
       video_tag ''https://files.example.org/youtube.com-clip.mp4''
   \<and> toVideoEmbed ''https://files.example.org/youtube.com-clip.mp4'' =
       hosted_frame ''https://files.example.org/youtube.com-clip.mp4''
   \<and> \<not> suffix ''.mp4'' ''/eng-portfolio/videos/clip.mp4?t=10''
   \<and> toVideoEmbed ''/eng-portfolio/videos/clip.mp4?t=10'' \<noteq>
       plain_frame ''/eng-portfolio/videos/clip.mp4?t=10''
   \<and> toVideoEmbed ''/eng-portfolio/videos/clip.mp4?t=10'' =
       video_tag ''/eng-portfolio/videos/clip.mp4?t=10''\<close>
  by code_simp

section \<open>Hydration\<close>

lemma resume_length: \<open>length (resume fetch root i) = length root\<close>
  by (simp add: resume_def split: option.splits)

lemma resume_nth:
  \<open>j < length root \<Longrightarrow>
   resume fetch root i ! j = (if j = i then hydrated fetch (root ! j) else root ! j)\<close>
  by (auto simp: resume_def hydrated_def split: option.splits)

lemma hydrated_idem: \<open>hydrated fetch (hydrated fetch n) = hydrated fetch n\<close>
  by (simp add: hydrated_def split: option.splits)

lemma foldl_resume:
  \<open>length (foldl (resume fetch) root sch) = length root
   \<and> (\<forall>j<length root. foldl (resume fetch) root sch ! j =
         (if j \<in> set sch then hydrated fetch (root ! j) else root ! j))\<close>
proof (induction sch arbitrary: root)
  case Nil
  then show ?case by simp
next
  case (Cons i sch)
  from Cons.IH [of \<open>resume fetch root i\<close>] show ?case
    by (auto simp: resume_length resume_nth hydrated_idem)
qed

lemma selected_iff:
  \<open>j \<in> set (selected root) \<longleftrightarrow> j < length root \<and> code_window (root ! j) \<and> data_src (root ! j) \<noteq> None\<close>
  by (auto simp: selected_def)

text \<open>
  C9. Whatever the order in which the callbacks of the pending blocks are resumed, each
  block ends with the text its own request gives: the body of a successful response,
  \<^verbatim>\<open>Failed to load: \<close> and the locator for a response that is not a success,
  \<^verbatim>\<open>Error loading: \<close> and the locator for a rejected request (or a body that cannot be
  read). No other node changes and no outcome raises an error, so a failure of one block
  leaves the others and the page as they are.
\<close>

theorem hydration_per_block:
  assumes \<open>set schedule = set (selected root)\<close> and \<open>j < length root\<close>
  shows \<open>length (hydrateCodeBlocks fetch schedule root) = length root
    \<and> code_window (hydrateCodeBlocks fetch schedule root ! j) = code_window (root ! j)
    \<and> data_src (hydrateCodeBlocks fetch schedule root ! j) = data_src (root ! j)
    \<and> textContent (hydrateCodeBlocks fetch schedule root ! j) =
        (if code_window (root ! j) then
           (case data_src (root ! j) of
              None \<Rightarrow> textContent (root ! j)
            | Some url \<Rightarrow>
                (case fetch url of
                   Response ok body \<Rightarrow>
                     (if ok then (case body of Some text \<Rightarrow> text | None \<Rightarrow> ''Error loading: '' @ url)
                      else ''Failed to load: '' @ url)
                 | Rejected \<Rightarrow> ''Error loading: '' @ url))
         else textContent (root ! j))\<close>
proof -
  have len: \<open>length (hydrateCodeBlocks fetch schedule root) = length root\<close>
    using foldl_resume [of fetch root schedule] by (simp add: hydrateCodeBlocks_def)
  have n: \<open>hydrateCodeBlocks fetch schedule root ! j =
      (if code_window (root ! j) \<and> data_src (root ! j) \<noteq> None
       then hydrated fetch (root ! j) else root ! j)\<close>
    using foldl_resume [of fetch root schedule] assms
    by (simp add: hydrateCodeBlocks_def selected_iff)
  show ?thesis
    unfolding n using len
    by (auto simp: hydrated_def settle_text_def split: option.splits settled.splits)
qed

theorem hydration_per_block_witness:
  \<open>set [2, 0, 1] = set (selected ex_root)
   \<and> textContent (hydrateCodeBlocks ex_fetch [2, 0, 1] ex_root ! 0) = ''print(1)''
   \<and> textContent (hydrateCodeBlocks ex_fetch [2, 0, 1] ex_root ! 1) = ''Failed to load: /b.py''
   \<and> textContent (hydrateCodeBlocks ex_fetch [2, 0, 1] ex_root ! 2) = ''Error loading: /c.py''
   \<and> textContent (hydrateCodeBlocks ex_fetch [2, 0, 1] ex_root ! 3) = ''x = 1''\<close>
proof -
  have s: \<open>set [2, 0, 1] = set (selected ex_root)\<close>
    by (auto simp: selected_def ex_root_def nth_Cons split: nat.splits)
  show ?thesis
    using s hydration_per_block [OF s, of 0 ex_fetch] hydration_per_block [OF s, of 1 ex_fetch]
      hydration_per_block [OF s, of 2 ex_fetch] hydration_per_block [OF s, of 3 ex_fetch]
    by (simp add: ex_root_def ex_fetch_def)
qed

section \<open>Item lists\<close>



end
